theory Spec2Isabelle
  imports Complex_Main "HOL-Library.Multiset" "HOL-Library.AList"
begin

section \<open>Common conventions\<close>

text \<open>
  The Python sources compute with IEEE doubles; the model computes finite values with
  \<^typ>\<open>real\<close>, so every statement below is about the exact arithmetic the code
  approximates. Where a result can leave the range of its number type (an overflowing
  power, a division by zero in numpy) the model says so: 64-bit integers wrap around and
  floating-point results become an infinity or NaN.
  Exceptions of the source are values of the type \<open>error\<close>; a function that can raise
  returns \<open>error + 'a\<close> with \<open>Inl\<close> for the exception.
\<close>

datatype error = ZeroDivisionError | IndexError | ValueError

definition py_div :: "real \<Rightarrow> real \<Rightarrow> error + real" where
  \<comment> \<open>Python's \<open>a / b\<close> on numbers raises on a zero divisor.\<close>
  "py_div a b = (if b = 0 then Inl ZeroDivisionError else Inr (a / b))"

definition on_quotient :: "real \<Rightarrow> real \<Rightarrow> (real \<Rightarrow> 'a) \<Rightarrow> error + 'a" where
  \<comment> \<open>Evaluate \<open>a / b\<close>, then continue with the quotient; the exception propagates.\<close>
  "on_quotient a b k = (case py_div a b of Inl e \<Rightarrow> Inl e | Inr q \<Rightarrow> Inr (k q))"

subsection \<open>numpy floating-point values\<close>

text \<open>
  Where the source computes with numpy or pandas, a number can leave the finite range
  without an exception: a value is a finite number, an infinity or NaN. Division is
  element-wise and does not raise: a finite non-zero number over zero is an infinity,
  zero over zero is NaN. The sign of a zero is not modelled (a zero divisor counts as
  \<open>+0.0\<close>), and finite results are exact.
\<close>

datatype fval = Fin real | PInf | NInf | NaN

fun fneg :: "fval \<Rightarrow> fval" where
  "fneg (Fin a) = Fin (- a)"
| "fneg PInf = NInf"
| "fneg NInf = PInf"
| "fneg NaN = NaN"

fun fadd :: "fval \<Rightarrow> fval \<Rightarrow> fval" where
  "fadd NaN y = NaN"
| "fadd x NaN = NaN"
| "fadd (Fin a) (Fin b) = Fin (a + b)"
| "fadd (Fin a) y = y"
| "fadd x (Fin b) = x"
| "fadd PInf PInf = PInf"
| "fadd NInf NInf = NInf"
| "fadd PInf NInf = NaN"
| "fadd NInf PInf = NaN"

definition fsub :: "fval \<Rightarrow> fval \<Rightarrow> fval" where
  "fsub x y = fadd x (fneg y)"

fun fsign :: "fval \<Rightarrow> int" where
  \<comment> \<open>\<open>1\<close>, \<open>0\<close> or \<open>-1\<close>; NaN has no sign and is handled before\<close>
  "fsign (Fin a) = (if a > 0 then 1 else if a < 0 then - 1 else 0)"
| "fsign PInf = 1"
| "fsign NInf = - 1"
| "fsign NaN = 0"

definition signed_inf :: "int \<Rightarrow> fval" where
  "signed_inf s = (if s > 0 then PInf else if s < 0 then NInf else NaN)"

fun fmul :: "fval \<Rightarrow> fval \<Rightarrow> fval" where
  "fmul NaN y = NaN"
| "fmul x NaN = NaN"
| "fmul (Fin a) (Fin b) = Fin (a * b)"
| "fmul x y = signed_inf (fsign x * fsign y)"

fun fdiv :: "fval \<Rightarrow> fval \<Rightarrow> fval" where
  "fdiv NaN y = NaN"
| "fdiv x NaN = NaN"
| "fdiv (Fin a) (Fin b) = (if b \<noteq> 0 then Fin (a / b) else signed_inf (fsign (Fin a)))"
| "fdiv (Fin a) y = Fin 0"
| "fdiv x (Fin b) = signed_inf (fsign x * (if b < 0 then - 1 else 1))"
| "fdiv x y = NaN"

fun fgt0 :: "fval \<Rightarrow> bool" where
  \<comment> \<open>\<open>x > 0\<close>; every comparison with NaN is false\<close>
  "fgt0 (Fin a) = (a > 0)"
| "fgt0 PInf = True"
| "fgt0 NInf = False"
| "fgt0 NaN = False"

section \<open>Quality gate: \<open>FeatureScoringSystem.py\<close>\<close>

datatype DataQuality = EXCELLENT | GOOD | FAIR | POOR

datatype FeatureCategory =
  ON_PAGE | TECHNICAL | CORE_WEB_VITALS | AUTHORITY | ENGAGEMENT
  | CONTENT | TEMPORAL | INTERACTION | COMPOSITE

text \<open>
  One entry of the threshold table. The \<open>description\<close> string of the source entries
  takes part in no computation and is left out. Every shipped entry sets \<open>inverse\<close>,
  so the default of \<open>config.get('inverse', False)\<close> is never used.
\<close>

record ThresholdSpec =
  category :: FeatureCategory
  min_good :: real
  max_good :: real
  min_excellent :: real
  max_excellent :: real
  weight :: real
  inverse :: bool

type_synonym threshold_table = "string \<rightharpoonup> ThresholdSpec"

subsection \<open>The shipped catalog, \<open>get_all_thresholds\<close>\<close>

definition on_page_thresholds :: "(string \<times> ThresholdSpec) list" where
  "on_page_thresholds =
    [(''title_tag_length'',
      \<lparr>category = ON_PAGE, min_good = 30, max_good = 70,
       min_excellent = 50, max_excellent = 60, weight = 1.5, inverse = False\<rparr>),
     (''title_keyword_present'',
      \<lparr>category = ON_PAGE, min_good = 1, max_good = 1,
       min_excellent = 1, max_excellent = 1, weight = 2, inverse = False\<rparr>),
     (''title_keyword_position'',
      \<lparr>category = ON_PAGE, min_good = 0, max_good = 40,
       min_excellent = 0, max_excellent = 10, weight = 1.3, inverse = True\<rparr>),
     (''meta_description_length'',
      \<lparr>category = ON_PAGE, min_good = 120, max_good = 160,
       min_excellent = 140, max_excellent = 155, weight = 1.2, inverse = False\<rparr>),
     (''meta_keyword_present'',
      \<lparr>category = ON_PAGE, min_good = 1, max_good = 1,
       min_excellent = 1, max_excellent = 1, weight = 1.5, inverse = False\<rparr>),
     (''url_length'',
      \<lparr>category = ON_PAGE, min_good = 20, max_good = 100,
       min_excellent = 30, max_excellent = 75, weight = 1, inverse = True\<rparr>),
     (''url_keyword_present'',
      \<lparr>category = ON_PAGE, min_good = 1, max_good = 1,
       min_excellent = 1, max_excellent = 1, weight = 1.8, inverse = False\<rparr>),
     (''url_depth'',
      \<lparr>category = ON_PAGE, min_good = 1, max_good = 3,
       min_excellent = 1, max_excellent = 2, weight = 1.1, inverse = True\<rparr>),
     (''h1_count'',
      \<lparr>category = ON_PAGE, min_good = 1, max_good = 1,
       min_excellent = 1, max_excellent = 1, weight = 1.8, inverse = False\<rparr>),
     (''h1_keyword_present'',
      \<lparr>category = ON_PAGE, min_good = 1, max_good = 1,
       min_excellent = 1, max_excellent = 1, weight = 1.7, inverse = False\<rparr>),
     (''h2_count'',
      \<lparr>category = ON_PAGE, min_good = 2, max_good = 8,
       min_excellent = 3, max_excellent = 6, weight = 1.2, inverse = False\<rparr>),
     (''h3_count'',
      \<lparr>category = ON_PAGE, min_good = 0, max_good = 15,
       min_excellent = 3, max_excellent = 10, weight = 1, inverse = False\<rparr>),
     (''content_word_count'',
      \<lparr>category = ON_PAGE, min_good = 1000, max_good = 5000,
       min_excellent = 1800, max_excellent = 3000, weight = 1.6, inverse = False\<rparr>),
     (''keyword_density'',
      \<lparr>category = ON_PAGE, min_good = 0.5, max_good = 2.5,
       min_excellent = 1, max_excellent = 2, weight = 1.3, inverse = False\<rparr>),
     (''internal_links_count'',
      \<lparr>category = ON_PAGE, min_good = 3, max_good = 20,
       min_excellent = 5, max_excellent = 15, weight = 1.2, inverse = False\<rparr>),
     (''external_links_count'',
      \<lparr>category = ON_PAGE, min_good = 1, max_good = 10,
       min_excellent = 2, max_excellent = 6, weight = 1, inverse = False\<rparr>),
     (''image_count'',
      \<lparr>category = ON_PAGE, min_good = 1, max_good = 20,
       min_excellent = 3, max_excellent = 12, weight = 1.1, inverse = False\<rparr>),
     (''images_with_alt_ratio'',
      \<lparr>category = ON_PAGE, min_good = 0.7, max_good = 1,
       min_excellent = 0.9, max_excellent = 1, weight = 1.4, inverse = False\<rparr>)]"

definition technical_thresholds :: "(string \<times> ThresholdSpec) list" where
  "technical_thresholds =
    [(''https_enabled'',
      \<lparr>category = TECHNICAL, min_good = 1, max_good = 1,
       min_excellent = 1, max_excellent = 1, weight = 1.8, inverse = False\<rparr>),
     (''mobile_friendly'',
      \<lparr>category = TECHNICAL, min_good = 1, max_good = 1,
       min_excellent = 1, max_excellent = 1, weight = 1.9, inverse = False\<rparr>),
     (''page_load_time_ms'',
      \<lparr>category = TECHNICAL, min_good = 500, max_good = 3000,
       min_excellent = 500, max_excellent = 1500, weight = 1.7, inverse = True\<rparr>),
     (''page_size_kb'',
      \<lparr>category = TECHNICAL, min_good = 500, max_good = 3000,
       min_excellent = 800, max_excellent = 2000, weight = 1.2, inverse = True\<rparr>),
     (''robots_txt_present'',
      \<lparr>category = TECHNICAL, min_good = 1, max_good = 1,
       min_excellent = 1, max_excellent = 1, weight = 1.3, inverse = False\<rparr>),
     (''sitemap_xml_present'',
      \<lparr>category = TECHNICAL, min_good = 1, max_good = 1,
       min_excellent = 1, max_excellent = 1, weight = 1.5, inverse = False\<rparr>),
     (''canonical_tag_present'',
      \<lparr>category = TECHNICAL, min_good = 1, max_good = 1,
       min_excellent = 1, max_excellent = 1, weight = 1.4, inverse = False\<rparr>),
     (''structured_data_present'',
      \<lparr>category = TECHNICAL, min_good = 1, max_good = 1,
       min_excellent = 1, max_excellent = 1, weight = 1.6, inverse = False\<rparr>),
     (''crawl_errors_count'',
      \<lparr>category = TECHNICAL, min_good = 0, max_good = 5,
       min_excellent = 0, max_excellent = 0, weight = 1.5, inverse = True\<rparr>),
     (''broken_links_count'',
      \<lparr>category = TECHNICAL, min_good = 0, max_good = 3,
       min_excellent = 0, max_excellent = 0, weight = 1.4, inverse = True\<rparr>)]"

definition core_web_vitals_thresholds :: "(string \<times> ThresholdSpec) list" where
  "core_web_vitals_thresholds =
    [(''lcp_score'',
      \<lparr>category = CORE_WEB_VITALS, min_good = 0, max_good = 2.5,
       min_excellent = 0, max_excellent = 1.8, weight = 2, inverse = True\<rparr>),
     (''fid_score'',
      \<lparr>category = CORE_WEB_VITALS, min_good = 0, max_good = 100,
       min_excellent = 0, max_excellent = 50, weight = 1.8, inverse = True\<rparr>),
     (''inp_score'',
      \<lparr>category = CORE_WEB_VITALS, min_good = 0, max_good = 200,
       min_excellent = 0, max_excellent = 100, weight = 2, inverse = True\<rparr>),
     (''cls_score'',
      \<lparr>category = CORE_WEB_VITALS, min_good = 0, max_good = 0.1,
       min_excellent = 0, max_excellent = 0.05, weight = 1.9, inverse = True\<rparr>),
     (''ttfb_score'',
      \<lparr>category = CORE_WEB_VITALS, min_good = 0, max_good = 800,
       min_excellent = 0, max_excellent = 200, weight = 1.5, inverse = True\<rparr>),
     (''fcp_score'',
      \<lparr>category = CORE_WEB_VITALS, min_good = 0, max_good = 1.8,
       min_excellent = 0, max_excellent = 1, weight = 1.6, inverse = True\<rparr>),
     (''speed_index'',
      \<lparr>category = CORE_WEB_VITALS, min_good = 0, max_good = 3.4,
       min_excellent = 0, max_excellent = 1.3, weight = 1.5, inverse = True\<rparr>),
     (''tbt_score'',
      \<lparr>category = CORE_WEB_VITALS, min_good = 0, max_good = 200,
       min_excellent = 0, max_excellent = 100, weight = 1.4, inverse = True\<rparr>)]"

definition authority_thresholds :: "(string \<times> ThresholdSpec) list" where
  "authority_thresholds =
    [(''domain_authority'',
      \<lparr>category = AUTHORITY, min_good = 30, max_good = 100,
       min_excellent = 50, max_excellent = 100, weight = 1.8, inverse = False\<rparr>),
     (''page_authority'',
      \<lparr>category = AUTHORITY, min_good = 20, max_good = 100,
       min_excellent = 40, max_excellent = 100, weight = 1.7, inverse = False\<rparr>),
     (''domain_rating'',
      \<lparr>category = AUTHORITY, min_good = 30, max_good = 100,
       min_excellent = 50, max_excellent = 100, weight = 1.8, inverse = False\<rparr>),
     (''url_rating'',
      \<lparr>category = AUTHORITY, min_good = 20, max_good = 100,
       min_excellent = 40, max_excellent = 100, weight = 1.7, inverse = False\<rparr>),
     (''backlinks_total'',
      \<lparr>category = AUTHORITY, min_good = 10, max_good = 10000,
       min_excellent = 100, max_excellent = 10000, weight = 1.6, inverse = False\<rparr>),
     (''referring_domains'',
      \<lparr>category = AUTHORITY, min_good = 5, max_good = 5000,
       min_excellent = 50, max_excellent = 5000, weight = 1.9, inverse = False\<rparr>),
     (''dofollow_backlinks_ratio'',
      \<lparr>category = AUTHORITY, min_good = 0.5, max_good = 1,
       min_excellent = 0.7, max_excellent = 1, weight = 1.5, inverse = False\<rparr>),
     (''avg_referring_domain_rating'',
      \<lparr>category = AUTHORITY, min_good = 30, max_good = 100,
       min_excellent = 50, max_excellent = 100, weight = 1.7, inverse = False\<rparr>),
     (''trust_flow'',
      \<lparr>category = AUTHORITY, min_good = 20, max_good = 100,
       min_excellent = 40, max_excellent = 100, weight = 1.6, inverse = False\<rparr>),
     (''citation_flow'',
      \<lparr>category = AUTHORITY, min_good = 20, max_good = 100,
       min_excellent = 40, max_excellent = 100, weight = 1.5, inverse = False\<rparr>)]"

definition engagement_thresholds :: "(string \<times> ThresholdSpec) list" where
  "engagement_thresholds =
    [(''organic_traffic_monthly'',
      \<lparr>category = ENGAGEMENT, min_good = 100, max_good = 1000000,
       min_excellent = 1000, max_excellent = 1000000, weight = 1.8, inverse = False\<rparr>),
     (''avg_session_duration_sec'',
      \<lparr>category = ENGAGEMENT, min_good = 60, max_good = 600,
       min_excellent = 120, max_excellent = 480, weight = 1.6, inverse = False\<rparr>),
     (''bounce_rate'',
      \<lparr>category = ENGAGEMENT, min_good = 0.2, max_good = 0.6,
       min_excellent = 0.2, max_excellent = 0.4, weight = 1.7, inverse = True\<rparr>),
     (''pages_per_session'',
      \<lparr>category = ENGAGEMENT, min_good = 1.5, max_good = 10,
       min_excellent = 2.5, max_excellent = 8, weight = 1.5, inverse = False\<rparr>),
     (''ctr_from_serp'',
      \<lparr>category = ENGAGEMENT, min_good = 0.02, max_good = 0.3,
       min_excellent = 0.05, max_excellent = 0.2, weight = 1.9, inverse = False\<rparr>),
     (''scroll_depth_avg'',
      \<lparr>category = ENGAGEMENT, min_good = 0.4, max_good = 1,
       min_excellent = 0.6, max_excellent = 1, weight = 1.3, inverse = False\<rparr>),
     (''return_visitor_rate'',
      \<lparr>category = ENGAGEMENT, min_good = 0.2, max_good = 0.8,
       min_excellent = 0.4, max_excellent = 0.7, weight = 1.4, inverse = False\<rparr>)]"

definition content_thresholds :: "(string \<times> ThresholdSpec) list" where
  "content_thresholds =
    [(''readability_score'',
      \<lparr>category = CONTENT, min_good = 40, max_good = 80,
       min_excellent = 50, max_excellent = 70, weight = 1.4, inverse = False\<rparr>),
     (''content_uniqueness_ratio'',
      \<lparr>category = CONTENT, min_good = 0.7, max_good = 1,
       min_excellent = 0.9, max_excellent = 1, weight = 1.8, inverse = False\<rparr>),
     (''avg_sentence_length'',
      \<lparr>category = CONTENT, min_good = 10, max_good = 25,
       min_excellent = 12, max_excellent = 20, weight = 1.1, inverse = False\<rparr>),
     (''paragraph_count'',
      \<lparr>category = CONTENT, min_good = 5, max_good = 50,
       min_excellent = 10, max_excellent = 30, weight = 1.2, inverse = False\<rparr>),
     (''multimedia_elements_count'',
      \<lparr>category = CONTENT, min_good = 2, max_good = 20,
       min_excellent = 4, max_excellent = 15, weight = 1.3, inverse = False\<rparr>),
     (''video_present'',
      \<lparr>category = CONTENT, min_good = 0, max_good = 1,
       min_excellent = 1, max_excellent = 1, weight = 1.5, inverse = False\<rparr>),
     (''table_count'',
      \<lparr>category = CONTENT, min_good = 0, max_good = 10,
       min_excellent = 1, max_excellent = 5, weight = 1.1, inverse = False\<rparr>),
     (''list_count'',
      \<lparr>category = CONTENT, min_good = 1, max_good = 15,
       min_excellent = 2, max_excellent = 8, weight = 1.2, inverse = False\<rparr>)]"

definition temporal_thresholds :: "(string \<times> ThresholdSpec) list" where
  "temporal_thresholds =
    [(''page_age_days'',
      \<lparr>category = TEMPORAL, min_good = 30, max_good = 3650,
       min_excellent = 180, max_excellent = 2000, weight = 1.3, inverse = False\<rparr>),
     (''last_updated_days_ago'',
      \<lparr>category = TEMPORAL, min_good = 0, max_good = 180,
       min_excellent = 0, max_excellent = 90, weight = 1.4, inverse = True\<rparr>),
     (''traffic_growth_7d'',
      \<lparr>category = TEMPORAL, min_good = - 0.1, max_good = 1,
       min_excellent = 0.05, max_excellent = 0.5, weight = 1.5, inverse = False\<rparr>),
     (''traffic_growth_30d'',
      \<lparr>category = TEMPORAL, min_good = - 0.1, max_good = 1,
       min_excellent = 0.1, max_excellent = 0.8, weight = 1.6, inverse = False\<rparr>),
     (''ranking_volatility'',
      \<lparr>category = TEMPORAL, min_good = 0, max_good = 5,
       min_excellent = 0, max_excellent = 2, weight = 1.2, inverse = True\<rparr>)]"

definition interaction_thresholds :: "(string \<times> ThresholdSpec) list" where
  "interaction_thresholds =
    [(''content_authority_interaction'',
      \<lparr>category = INTERACTION, min_good = 500, max_good = 100000,
       min_excellent = 2000, max_excellent = 50000, weight = 1.7, inverse = False\<rparr>),
     (''engagement_position_interaction'',
      \<lparr>category = INTERACTION, min_good = 0.1, max_good = 1,
       min_excellent = 0.3, max_excellent = 0.9, weight = 1.6, inverse = False\<rparr>),
     (''mobile_traffic_mobile_friendly'',
      \<lparr>category = INTERACTION, min_good = 0.3, max_good = 1,
       min_excellent = 0.5, max_excellent = 1, weight = 1.5, inverse = False\<rparr>)]"

definition composite_thresholds :: "(string \<times> ThresholdSpec) list" where
  "composite_thresholds =
    [(''authority_score'',
      \<lparr>category = COMPOSITE, min_good = 30, max_good = 100,
       min_excellent = 50, max_excellent = 100, weight = 1.9, inverse = False\<rparr>),
     (''technical_health_score'',
      \<lparr>category = COMPOSITE, min_good = 0.7, max_good = 1,
       min_excellent = 0.9, max_excellent = 1, weight = 1.8, inverse = False\<rparr>),
     (''content_quality_score'',
      \<lparr>category = COMPOSITE, min_good = 60, max_good = 100,
       min_excellent = 80, max_excellent = 100, weight = 1.9, inverse = False\<rparr>),
     (''eeat_score'',
      \<lparr>category = COMPOSITE, min_good = 0.6, max_good = 1,
       min_excellent = 0.8, max_excellent = 1, weight = 2, inverse = False\<rparr>),
     (''overall_seo_score'',
      \<lparr>category = COMPOSITE, min_good = 60, max_good = 100,
       min_excellent = 80, max_excellent = 100, weight = 2, inverse = False\<rparr>)]"
definition all_threshold_entries :: "(string \<times> ThresholdSpec) list" where
  \<comment> \<open>The entries in the order the source assigns them; the keys are pairwise distinct.\<close>
  "all_threshold_entries =
     on_page_thresholds @ technical_thresholds @ core_web_vitals_thresholds
     @ authority_thresholds @ engagement_thresholds @ content_thresholds
     @ temporal_thresholds @ interaction_thresholds @ composite_thresholds"

definition get_all_thresholds :: threshold_table where
  "get_all_thresholds = map_of all_threshold_entries"

subsection \<open>\<open>evaluate_feature\<close>\<close>

definition resolve_thresholds :: "threshold_table option \<Rightarrow> threshold_table" where
  \<comment> \<open>\<open>if thresholds is None: thresholds = get_all_thresholds()\<close>\<close>
  "resolve_thresholds t = (case t of None \<Rightarrow> get_all_thresholds | Some tbl \<Rightarrow> tbl)"

definition evaluate_inverse :: "ThresholdSpec \<Rightarrow> real \<Rightarrow> error + (DataQuality \<times> real)" where
  "evaluate_inverse config v =
     (if v \<le> min_excellent config then Inr (EXCELLENT, 1)
      else if v \<le> max_excellent config then
        on_quotient (v - min_excellent config) (max_excellent config - min_excellent config)
          (\<lambda>q. (EXCELLENT, 0.85 + 0.15 * (1 - q)))
      else if v \<le> min_good config then
        on_quotient (v - max_excellent config) (min_good config - max_excellent config)
          (\<lambda>q. (GOOD, 0.7 + 0.15 * (1 - q)))
      else if v \<le> max_good config then
        on_quotient (v - min_good config) (max_good config - min_good config)
          (\<lambda>q. (FAIR, 0.5 + 0.2 * (1 - q)))
      else
        on_quotient (v - max_good config) (max_good config)
          (\<lambda>q. (POOR, max 0.1 (0.5 - 0.4 * q))))"

definition evaluate_normal :: "ThresholdSpec \<Rightarrow> real \<Rightarrow> error + (DataQuality \<times> real)" where
  "evaluate_normal config v =
     (if v \<ge> min_excellent config \<and> v \<le> max_excellent config then Inr (EXCELLENT, 1)
      else if v \<ge> min_good config \<and> v \<le> max_good config then
        (if v < min_excellent config then
           on_quotient (0.15 * (v - min_good config)) (min_excellent config - min_good config)
             (\<lambda>q. (GOOD, 0.7 + q))
         else
           on_quotient (v - max_excellent config) (max_good config - max_excellent config)
             (\<lambda>q. (GOOD, 0.85 + 0.15 * (1 - q))))
      else if v \<ge> min_good config * 0.5 \<and> v < min_good config then
        on_quotient (0.2 * (v - min_good config * 0.5)) (min_good config * 0.5)
          (\<lambda>q. (FAIR, 0.5 + q))
      else if min_good config > 0 then
        on_quotient v (min_good config * 0.5) (\<lambda>q. (POOR, max 0.1 (0.5 * q)))
      else Inr (POOR, max 0.1 0.1))"

definition evaluate_feature ::
  "string \<Rightarrow> real \<Rightarrow> threshold_table option \<Rightarrow> error + (DataQuality \<times> real)" where
  "evaluate_feature feature_name v thresholds =
     (case resolve_thresholds thresholds feature_name of
        None \<Rightarrow> Inr (FAIR, 0.5)
      | Some config \<Rightarrow>
          (if inverse config then evaluate_inverse config v else evaluate_normal config v))"

definition inverse_divisor_ok :: "string \<times> ThresholdSpec \<Rightarrow> bool" where
  \<comment> \<open>The only divisor of \<open>evaluate_feature\<close> that no guard protects is \<open>max_good\<close> of a
      lower-is-better entry.\<close>
  "inverse_divisor_ok e = (inverse (snd e) \<longrightarrow> max_good (snd e) \<noteq> 0)"

subsection \<open>\<open>calculate_overall_quality\<close>\<close>

text \<open>
  The feature record is a Python dict: its items are modelled as an association list in
  insertion order. The dicts the function builds (\<open>feature_scores\<close>, \<open>category_scores\<close>)
  are association lists as well, updated in place when the key exists and extended at the
  end otherwise.
\<close>

record QualityReport =
  overall_quality :: DataQuality
  overall_score :: real
  feature_scores :: "(string \<times> (DataQuality \<times> real)) list"
  category_scores :: "(string \<times> real) list"
  good_features :: nat
  poor_features :: nat
  total_features :: nat

record quality_acc =
  acc_feature_scores :: "(string \<times> (DataQuality \<times> real)) list"
  acc_category_scores :: "(FeatureCategory \<times> real list) list"
  weighted_sum :: real
  total_weight :: real

fun category_value :: "FeatureCategory \<Rightarrow> string" where
  "category_value ON_PAGE = ''on_page''"
| "category_value TECHNICAL = ''technical''"
| "category_value CORE_WEB_VITALS = ''core_web_vitals''"
| "category_value AUTHORITY = ''authority''"
| "category_value ENGAGEMENT = ''engagement''"
| "category_value CONTENT = ''content''"
| "category_value TEMPORAL = ''temporal''"
| "category_value INTERACTION = ''interaction''"
| "category_value COMPOSITE = ''composite''"

definition append_score ::
  "FeatureCategory \<Rightarrow> real \<Rightarrow> (FeatureCategory \<times> real list) list
    \<Rightarrow> (FeatureCategory \<times> real list) list" where
  \<comment> \<open>\<open>if category not in category_scores: category_scores[category] = []\<close>, then \<open>append\<close>\<close>
  "append_score c s cs =
     (case map_of cs c of
        None \<Rightarrow> cs @ [(c, [s])]
      | Some l \<Rightarrow> AList.update c (l @ [s]) cs)"

definition quality_step ::
  "threshold_table \<Rightarrow> string \<times> real \<Rightarrow> quality_acc \<Rightarrow> error + quality_acc" where
  \<comment> \<open>The body of \<open>for feature_name, value in features.items()\<close>.\<close>
  "quality_step thresholds item acc =
     (case thresholds (fst item) of
        None \<Rightarrow> Inr acc
      | Some config \<Rightarrow>
          (case evaluate_feature (fst item) (snd item) (Some thresholds) of
             Inl e \<Rightarrow> Inl e
           | Inr qs \<Rightarrow>
               Inr \<lparr>acc_feature_scores = AList.update (fst item) qs (acc_feature_scores acc),
                    acc_category_scores =
                      append_score (category config) (snd qs) (acc_category_scores acc),
                    weighted_sum = weighted_sum acc + snd qs * weight config,
                    total_weight = total_weight acc + weight config\<rparr>))"

fun quality_loop ::
  "threshold_table \<Rightarrow> (string \<times> real) list \<Rightarrow> quality_acc \<Rightarrow> error + quality_acc" where
  "quality_loop thresholds [] acc = Inr acc"
| "quality_loop thresholds (item # items) acc =
     (case quality_step thresholds item acc of
        Inl e \<Rightarrow> Inl e
      | Inr acc' \<Rightarrow> quality_loop thresholds items acc')"

definition mean :: "real list \<Rightarrow> real" where
  \<comment> \<open>\<open>np.mean\<close> of a non-empty list\<close>
  "mean xs = sum_list xs / real (length xs)"

definition overall_tier :: "real \<Rightarrow> DataQuality" where
  "overall_tier score =
     (if score \<ge> 80 then EXCELLENT
      else if score \<ge> 70 then GOOD
      else if score \<ge> 50 then FAIR
      else POOR)"

definition make_report :: "quality_acc \<Rightarrow> QualityReport" where
  \<comment> \<open>Everything after the loop.\<close>
  "make_report acc =
     (let score = (if total_weight acc > 0
                   then (weighted_sum acc / total_weight acc) * 100 else 0)
      in \<lparr>overall_quality = overall_tier score,
          overall_score = score,
          feature_scores = acc_feature_scores acc,
          category_scores =
            map (\<lambda>(k, l). (category_value k, mean l * 100)) (acc_category_scores acc),
          good_features =
            length (filter (\<lambda>(n, (q, s)). q \<in> {EXCELLENT, GOOD}) (acc_feature_scores acc)),
          poor_features =
            length (filter (\<lambda>(n, (q, s)). q = POOR) (acc_feature_scores acc)),
          total_features = length (acc_feature_scores acc)\<rparr>)"

definition calculate_overall_quality ::
  "(string \<times> real) list \<Rightarrow> threshold_table option \<Rightarrow> error + QualityReport" where
  "calculate_overall_quality features thresholds =
     (case quality_loop (resolve_thresholds thresholds) features
             \<lparr>acc_feature_scores = [], acc_category_scores = [],
              weighted_sum = 0, total_weight = 0\<rparr> of
        Inl e \<Rightarrow> Inl e
      | Inr acc \<Rightarrow> Inr (make_report acc))"

definition known_items :: "threshold_table \<Rightarrow> (string \<times> real) list \<Rightarrow> (string \<times> real) list" where
  \<comment> \<open>The items of a record whose name has an entry in the threshold table.\<close>
  "known_items thresholds features = filter (\<lambda>item. thresholds (fst item) \<noteq> None) features"

section \<open>Batch ranking trainer: \<open>RankingPredictor.py\<close>\<close>

subsection \<open>Array helpers\<close>

text \<open>
  \<open>argsort\<close> returns the indices that sort a list in ascending order. numpy and pandas
  leave the order of equal keys to the sorting algorithm; the model breaks ties by
  position. The properties below are proved from facts that hold for every tie-break
  (the result is a permutation of the indices), never from the order of ties.
\<close>

definition argsort :: "('a::linorder) list \<Rightarrow> nat list" where
  "argsort xs = sort_key (\<lambda>i. xs ! i) [0..<length xs]"

definition fancy_index :: "'a list \<Rightarrow> nat list \<Rightarrow> error + 'a list" where
  \<comment> \<open>\<open>xs[idxs]\<close> for an index array, \<open>.iloc[idxs]\<close>: an index out of bounds raises.\<close>
  "fancy_index xs idxs =
     (if list_all (\<lambda>i. i < length xs) idxs then Inr (map (\<lambda>i. xs ! i) idxs)
      else Inl IndexError)"

definition slice :: "'a list \<Rightarrow> nat \<Rightarrow> nat \<Rightarrow> 'a list" where
  \<comment> \<open>\<open>xs[a:b]\<close>; a slice is cut at the end of the array and never raises.\<close>
  "slice xs a b = take (b - a) (drop a xs)"

definition mask_select :: "bool list \<Rightarrow> 'a list \<Rightarrow> 'a list" where
  \<comment> \<open>\<open>xs[mask]\<close> for a boolean mask of the length of \<open>xs\<close>\<close>
  "mask_select msk xs = map snd (filter fst (zip msk xs))"

definition unique :: "('a::linorder) list \<Rightarrow> 'a list" where
  \<comment> \<open>\<open>np.unique\<close>, \<open>torch.unique\<close>: the distinct values in ascending order\<close>
  "unique xs = sort (remdups xs)"

definition value_counts_sorted :: "('a::linorder) list \<Rightarrow> nat list" where
  \<comment> \<open>\<open>pd.Series(xs).value_counts().sort_index().values\<close>\<close>
  "value_counts_sorted xs = map (count_list xs) (unique xs)"

subsection \<open>\<open>_calculate_ndcg_at_k\<close>\<close>

text \<open>
  The gain \<open>2**relevance - 1\<close> is computed in the dtype of the label array. An element
  of an int64 array is a 64-bit integer: the power and the subtraction wrap around
  silently, and a negative exponent raises \<open>ValueError\<close>. An element of a float64 array
  is a double: the power is \<open>inf\<close> from the exponent 1024 on. A label carries its dtype;
  the number in an \<open>I64\<close> label is taken to lie in the int64 range. The quotient by
  \<open>np.log2(i + 2)\<close> and the sums are floating-point operations.
\<close>

datatype label = I64 int | F64 real

fun label_value :: "label \<Rightarrow> real" where
  "label_value (I64 n) = real_of_int n"
| "label_value (F64 r) = r"

definition wrap_int64 :: "int \<Rightarrow> int" where
  \<comment> \<open>the 64-bit two's complement value of an integer result\<close>
  "wrap_int64 x = (x + 2 ^ 63) mod 2 ^ 64 - 2 ^ 63"

fun pow2_minus_1 :: "label \<Rightarrow> error + fval" where
  \<comment> \<open>\<open>2**relevance - 1\<close>\<close>
  "pow2_minus_1 (I64 n) =
     (if n < 0 then Inl ValueError
      else Inr (Fin (real_of_int (wrap_int64 (wrap_int64 (2 ^ nat n) - 1)))))"
| "pow2_minus_1 (F64 r) = Inr (if r \<ge> 1024 then PInf else Fin (2 powr r - 1))"

definition discounted_gain :: "nat \<Rightarrow> label \<Rightarrow> error + fval" where
  \<comment> \<open>\<open>(2**rel - 1) / np.log2(i + 2)\<close>\<close>
  "discounted_gain i rel =
     (case pow2_minus_1 rel of
        Inl e \<Rightarrow> Inl e
      | Inr g \<Rightarrow> Inr (fdiv g (Fin (log 2 (real (i + 2))))))"

fun dcg_loop :: "label list \<Rightarrow> (nat \<times> nat) list \<Rightarrow> fval \<Rightarrow> error + fval" where
  \<comment> \<open>\<open>for i, idx in enumerate(top_k_indices)\<close>, with \<open>dcg\<close> as the loop state\<close>
  "dcg_loop y_true [] dcg = Inr dcg"
| "dcg_loop y_true ((i, idx) # rest) dcg =
     (if idx \<ge> length y_true then Inl IndexError
      else case discounted_gain i (y_true ! idx) of
             Inl e \<Rightarrow> Inl e
           | Inr t \<Rightarrow> dcg_loop y_true rest (fadd dcg t))"

fun gain_sum :: "(nat \<times> label) list \<Rightarrow> fval \<Rightarrow> error + fval" where
  \<comment> \<open>\<open>sum(... for i, rel in enumerate(ideal_relevances))\<close>\<close>
  "gain_sum [] acc = Inr acc"
| "gain_sum ((i, rel) # rest) acc =
     (case discounted_gain i rel of
        Inl e \<Rightarrow> Inl e
      | Inr t \<Rightarrow> gain_sum rest (fadd acc t))"

definition ideal_dcg :: "label list \<Rightarrow> nat \<Rightarrow> error + fval" where
  \<comment> \<open>\<open>ideal_relevances = np.sort(y_true)[::-1][:k]\<close> and the sum over it\<close>
  "ideal_dcg y_true k =
     gain_sum (enumerate 0 (take k (rev (sort_key label_value y_true)))) (Fin 0)"

definition calculate_ndcg_at_k :: "label list \<Rightarrow> real list \<Rightarrow> nat \<Rightarrow> error + fval" where
  "calculate_ndcg_at_k y_true y_pred k =
     (let sorted_indices = rev (argsort y_pred);
          top_k_indices = take (min k (length sorted_indices)) sorted_indices
      in case dcg_loop y_true (enumerate 0 top_k_indices) (Fin 0) of
           Inl e \<Rightarrow> Inl e
         | Inr dcg \<Rightarrow>
             (case ideal_dcg y_true k of
                Inl e \<Rightarrow> Inl e
              | Inr idcg \<Rightarrow>
                  if idcg = Fin 0 then Inr (Fin 0) else Inr (fdiv dcg idcg)))"






subsection \<open>\<open>_calculate_map\<close>\<close>

fun precisions_loop :: "(nat \<times> nat) list \<Rightarrow> nat \<Rightarrow> real list \<Rightarrow> real list" where
  \<comment> \<open>\<open>for i, is_relevant in enumerate(sorted_true)\<close>\<close>
  "precisions_loop [] relevant_count precisions = precisions"
| "precisions_loop ((i, is_relevant) # rest) relevant_count precisions =
     (if is_relevant \<noteq> 0
      then precisions_loop rest (relevant_count + 1)
             (precisions @ [real (relevant_count + 1) / real (i + 1)])
      else precisions_loop rest relevant_count precisions)"

definition group_average_precision :: "real list \<Rightarrow> real list \<Rightarrow> error + real option" where
  \<comment> \<open>The loop body for one group; \<open>None\<close> is the \<open>continue\<close> of a group without a
      relevant document.\<close>
  "group_average_precision group_true group_pred =
     (let binary_true = map (\<lambda>l. if l \<ge> 2 then 1 else (0::nat)) group_true
      in if sum_list binary_true = 0 then Inr None
         else case fancy_index binary_true (rev (argsort group_pred)) of
                Inl e \<Rightarrow> Inl e
              | Inr sorted_true \<Rightarrow>
                  (let precisions = precisions_loop (enumerate 0 sorted_true) 0 []
                   in Inr (Some (if precisions \<noteq> [] then mean precisions else 0))))"

fun map_loop ::
  "real list \<Rightarrow> real list \<Rightarrow> nat list \<Rightarrow> nat \<Rightarrow> real list \<Rightarrow> error + real list" where
  \<comment> \<open>\<open>for group_size in groups\<close>, with \<open>start_idx\<close> and \<open>ap_scores\<close> as the loop state\<close>
  "map_loop y_true y_pred [] start_idx ap_scores = Inr ap_scores"
| "map_loop y_true y_pred (group_size # groups) start_idx ap_scores =
     (let end_idx = start_idx + group_size
      in case group_average_precision (slice y_true start_idx end_idx)
                (slice y_pred start_idx end_idx) of
           Inl e \<Rightarrow> Inl e
         | Inr None \<Rightarrow> map_loop y_true y_pred groups end_idx ap_scores
         | Inr (Some ap) \<Rightarrow> map_loop y_true y_pred groups end_idx (ap_scores @ [ap]))"

definition calculate_map :: "real list \<Rightarrow> real list \<Rightarrow> nat list \<Rightarrow> error + real" where
  "calculate_map y_true y_pred groups =
     (case map_loop y_true y_pred groups 0 [] of
        Inl e \<Rightarrow> Inl e
      | Inr ap_scores \<Rightarrow> Inr (if ap_scores \<noteq> [] then mean ap_scores else 0))"

subsection \<open>\<open>prepare_ranking_data\<close>\<close>

text \<open>
  The rows of \<open>features\<close>, \<open>labels\<close> and \<open>query_ids\<close> correspond by position. The
  pseudo-random draw \<open>np.random.choice(n, m, replace=False)\<close> after
  \<open>np.random.seed(random_state)\<close> is a parameter \<open>sampler\<close> of the model; numpy rejects a
  negative sample size and one above the population. The function also stores the column
  names in \<open>self.feature_names\<close>, which no result depends on.
\<close>

record ('f, 'q) ranking_split =
  X_train :: "'f list"
  X_test :: "'f list"
  y_train :: "real list"
  y_test :: "real list"
  qid_train :: "'q list"
  qid_test :: "'q list"
  train_groups :: "nat list"
  test_groups :: "nat list"

definition py_int :: "real \<Rightarrow> int" where
  \<comment> \<open>\<open>int(x)\<close> truncates towards zero\<close>
  "py_int x = (if x \<ge> 0 then \<lfloor>x\<rfloor> else \<lceil>x\<rceil>)"

definition random_choice :: "(nat \<Rightarrow> nat \<Rightarrow> nat list) \<Rightarrow> nat \<Rightarrow> int \<Rightarrow> error + nat list" where
  "random_choice sampler n m =
     (if m < 0 \<or> int n < m then Inl ValueError else Inr (sampler n (nat m)))"

definition split_by_queries ::
  "'f list \<Rightarrow> real list \<Rightarrow> ('q::linorder) list \<Rightarrow> 'q list \<Rightarrow> ('f, 'q) ranking_split" where
  \<comment> \<open>From \<open>test_mask = query_ids.isin(test_queries)\<close> to the group sizes.\<close>
  "split_by_queries features labels query_ids test_queries =
     (let test_mask = map (\<lambda>q. q \<in> set test_queries) query_ids;
          train_mask = map Not test_mask;
          qid_tr = mask_select train_mask query_ids;
          qid_te = mask_select test_mask query_ids
      in \<lparr>X_train = mask_select train_mask features,
          X_test = mask_select test_mask features,
          y_train = mask_select train_mask labels,
          y_test = mask_select test_mask labels,
          qid_train = qid_tr,
          qid_test = qid_te,
          train_groups = value_counts_sorted qid_tr,
          test_groups = value_counts_sorted qid_te\<rparr>)"

definition prepare_ranking_split ::
  "(nat \<Rightarrow> nat \<Rightarrow> nat list) \<Rightarrow> 'f list \<Rightarrow> real list \<Rightarrow> ('q::linorder) list \<Rightarrow> real
    \<Rightarrow> error + ('f, 'q) ranking_split" where
  \<comment> \<open>The body of \<open>prepare_ranking_data\<close> with its local variables \<open>qid_train\<close> and
      \<open>qid_test\<close> kept in the result.\<close>
  "prepare_ranking_split sampler features labels query_ids test_size =
     (let sorted_indices = argsort query_ids
      in case fancy_index features sorted_indices of
           Inl e \<Rightarrow> Inl e
         | Inr features' \<Rightarrow>
        (case fancy_index labels sorted_indices of
           Inl e \<Rightarrow> Inl e
         | Inr labels' \<Rightarrow>
        (let query_ids' = map (\<lambda>i. query_ids ! i) sorted_indices;
             unique_queries = unique query_ids';
             n_queries = length unique_queries;
             n_test_queries = py_int (real n_queries * test_size)
         in case random_choice sampler n_queries n_test_queries of
              Inl e \<Rightarrow> Inl e
            | Inr test_query_indices \<Rightarrow>
           (case fancy_index unique_queries test_query_indices of
              Inl e \<Rightarrow> Inl e
            | Inr test_queries \<Rightarrow>
                Inr (split_by_queries features' labels' query_ids' test_queries)))))"


section \<open>Real-time ranker: \<open>NeuralNetworkRealTime.py\<close>\<close>

subsection \<open>\<open>LambdaRankLoss.forward\<close>\<close>

text \<open>
  The tensors \<open>scores\<close>, \<open>labels\<close> and \<open>query_ids\<close> are lists of one length; indexing a
  tensor with a boolean mask of another length raises. The loss and the pair count are
  the state of the nested loops.
\<close>

definition ndcg_lambda_weight :: "nat \<Rightarrow> nat \<Rightarrow> real" where
  "ndcg_lambda_weight positions_i positions_j =
     \<bar>1 / log 2 (real (positions_i + 2)) - 1 / log 2 (real (positions_j + 2))\<bar>"

definition argsort_descending :: "real list \<Rightarrow> nat list" where
  \<comment> \<open>\<open>torch.argsort(xs, descending=True)\<close>\<close>
  "argsort_descending xs = sort_key (\<lambda>i. - (xs ! i)) [0..<length xs]"

definition pair_step ::
  "real \<Rightarrow> real list \<Rightarrow> real list \<Rightarrow> nat \<times> nat \<Rightarrow> real \<times> nat \<Rightarrow> real \<times> nat" where
  \<comment> \<open>The body of the loop over \<open>j\<close> for one pair \<open>(i, j)\<close>; the state is \<open>(loss, count)\<close>.\<close>
  "pair_step sigma q_scores q_labels ij st =
     (let i = fst ij; j = snd ij
      in if q_labels ! i \<noteq> q_labels ! j then
           (let positions = argsort (argsort_descending q_scores);
                lambda_weight = ndcg_lambda_weight (positions ! i) (positions ! j);
                score_diff = q_scores ! i - q_scores ! j;
                label_diff = q_labels ! i - q_labels ! j;
                pair_loss = (if label_diff > 0 then ln (1 + exp (- sigma * score_diff))
                             else ln (1 + exp (sigma * score_diff)))
            in (fst st + lambda_weight * pair_loss, snd st + 1))
         else st)"

definition index_pairs :: "nat \<Rightarrow> (nat \<times> nat) list" where
  \<comment> \<open>\<open>for i in range(n): for j in range(i + 1, n)\<close>\<close>
  "index_pairs n = concat (map (\<lambda>i. map (Pair i) [i + 1..<n]) [0..<n])"

definition query_step ::
  "real \<Rightarrow> real list \<Rightarrow> real list \<Rightarrow> int list \<Rightarrow> int \<Rightarrow> real \<times> nat \<Rightarrow> real \<times> nat" where
  \<comment> \<open>The body of \<open>for qid in unique_queries\<close>.\<close>
  "query_step sigma scores labels query_ids qid st =
     (let msk = map (\<lambda>q. q = qid) query_ids;
          q_scores = mask_select msk scores;
          q_labels = mask_select msk labels
      in if length q_scores < 2 then st
         else fold (pair_step sigma q_scores q_labels) (index_pairs (length q_scores)) st)"

definition lambda_rank_forward ::
  "real \<Rightarrow> real list \<Rightarrow> real list \<Rightarrow> int list \<Rightarrow> error + real" where
  "lambda_rank_forward sigma scores labels query_ids =
     (if length scores \<noteq> length query_ids \<or> length labels \<noteq> length query_ids
      then Inl IndexError
      else (let st = fold (query_step sigma scores labels query_ids) (unique query_ids) (0, 0)
            in Inr (fst st / real (max (snd st) 1))))"

section \<open>Feature engineering: \<open>FeatureEngineering.py\<close>\<close>

subsection \<open>Data frames\<close>

text \<open>
  A numeric cell of a data frame is an \<open>fval\<close>. A data frame is its list of column names
  and its rows; a row gives a cell for every column name, and only the cells of the listed
  columns are meaningful.
\<close>

definition np_where :: "bool \<Rightarrow> fval \<Rightarrow> fval \<Rightarrow> fval" where
  \<comment> \<open>One element of \<open>np.where(cond, x, y)\<close>. Both \<open>x\<close> and \<open>y\<close> are computed for every
      row before the selection; computing them does not raise (see \<open>fdiv\<close>).\<close>
  "np_where c x y = (if c then x else y)"

definition row_sum :: "fval list \<Rightarrow> fval" where
  \<comment> \<open>One row of \<open>df[cols].sum(axis=1)\<close>: NaN cells are skipped\<close>
  "row_sum xs = fold (\<lambda>x acc. fadd acc x) (filter (\<lambda>x. x \<noteq> NaN) xs) (Fin 0)"

record dataframe =
  columns :: "string list"
  rows :: "(string \<Rightarrow> fval) list"

definition has_columns :: "dataframe \<Rightarrow> string list \<Rightarrow> bool" where
  \<comment> \<open>\<open>all(col in df.columns for col in cols)\<close>\<close>
  "has_columns df cols = list_all (\<lambda>c. c \<in> set (columns df)) cols"

definition assign :: "string \<Rightarrow> ((string \<Rightarrow> fval) \<Rightarrow> fval) \<Rightarrow> dataframe \<Rightarrow> dataframe" where
  \<comment> \<open>\<open>df[c] = series\<close>, the series given row by row: an existing column is overwritten
      in place, a new one is added as the last column\<close>
  "assign c f df =
     \<lparr>columns = (if c \<in> set (columns df) then columns df else columns df @ [c]),
      rows = map (\<lambda>r. r(c := f r)) (rows df)\<rparr>"

subsection \<open>\<open>_create_ratio_features\<close>\<close>

definition image_alt_step :: "dataframe \<Rightarrow> dataframe" where
  "image_alt_step df =
     (if has_columns df [''images_with_alt_text'', ''image_count''] then
        assign ''image_alt_ratio''
          (\<lambda>r. np_where (fgt0 (r ''image_count''))
                  (fdiv (r ''images_with_alt_text'') (r ''image_count'')) (Fin 1)) df
      else df)"

definition dofollow_step :: "dataframe \<Rightarrow> dataframe" where
  "dofollow_step df =
     (if has_columns df [''dofollow_links'', ''total_backlinks''] then
        assign ''dofollow_ratio''
          (\<lambda>r. np_where (fgt0 (r ''total_backlinks''))
                  (fdiv (r ''dofollow_links'') (r ''total_backlinks'')) (Fin 0)) df
      else df)"

definition authority_step :: "dataframe \<Rightarrow> dataframe" where
  "authority_step df =
     (if has_columns df [''high_authority_links'', ''medium_authority_links'',
                         ''low_authority_links'', ''total_backlinks''] then
        assign ''authority_concentration''
          (\<lambda>r. np_where (fgt0 (r ''total_backlinks''))
                  (fdiv (r ''high_authority_links'') (fadd (r ''low_authority_links'') (Fin 1)))
                  (Fin 0))
          (assign ''high_authority_ratio''
             (\<lambda>r. np_where (fgt0 (r ''total_backlinks''))
                     (fdiv (r ''high_authority_links'') (r ''total_backlinks'')) (Fin 0)) df)
      else df)"

definition anchor_cols :: "string list" where
  "anchor_cols = [''exact_match_anchors'', ''partial_match_anchors'',
                  ''branded_anchors'', ''generic_anchors'']"

definition anchor_ratio_cols :: "(string \<times> string) list" where
  \<comment> \<open>every anchor column with \<open>col.replace('_anchors', '_anchor_ratio')\<close>\<close>
  "anchor_ratio_cols =
     [(''exact_match_anchors'', ''exact_match_anchor_ratio''),
      (''partial_match_anchors'', ''partial_match_anchor_ratio''),
      (''branded_anchors'', ''branded_anchor_ratio''),
      (''generic_anchors'', ''generic_anchor_ratio'')]"

definition anchor_step :: "dataframe \<Rightarrow> dataframe" where
  \<comment> \<open>\<open>total_anchors\<close> is computed once before the loop; the loop writes four new
      columns and no anchor column, so the anchor cells read inside it are the same\<close>
  "anchor_step df =
     (if has_columns df anchor_cols then
        fold (\<lambda>(col, ratio_col) d.
                assign ratio_col
                  (\<lambda>r. let total_anchors = row_sum (map r anchor_cols)
                        in np_where (fgt0 total_anchors) (fdiv (r col) total_anchors) (Fin 0)) d)
          anchor_ratio_cols df
      else df)"

definition content_to_code_step :: "dataframe \<Rightarrow> dataframe" where
  "content_to_code_step df =
     (if has_columns df [''content_length'', ''javascript_size'', ''css_size''] then
        assign ''content_to_code_ratio''
          (\<lambda>r. if r ''content_to_code_ratio'' = PInf then Fin 100
                else r ''content_to_code_ratio'')
          (assign ''content_to_code_ratio''
             (\<lambda>r. let total_code = fadd (r ''javascript_size'') (r ''css_size'')
                   in np_where (fgt0 total_code) (fdiv (r ''content_length'') total_code) PInf)
             df)
      else df)"

definition engagement_step :: "dataframe \<Rightarrow> dataframe" where
  "engagement_step df =
     (if has_columns df [''engagement_rate'', ''bounce_rate''] then
        assign ''engagement_efficiency''
          (\<lambda>r. fmul (r ''engagement_rate'') (fsub (Fin 1) (r ''bounce_rate''))) df
      else df)"

definition create_ratio_features :: "dataframe \<Rightarrow> dataframe" where
  \<comment> \<open>The branch on \<open>ctr_by_device\<close> is a \<open>pass\<close>.\<close>
  "create_ratio_features df =
     engagement_step (content_to_code_step (anchor_step (authority_step
       (dofollow_step (image_alt_step df)))))"

section \<open>Properties of the quality gate\<close>

lemma on_quotient_Inr: "b \<noteq> 0 \<Longrightarrow> on_quotient a b k = Inr (k (a / b))"
  by (simp add: on_quotient_def py_div_def)

lemma on_quotient_Inl: "on_quotient a 0 k = Inl ZeroDivisionError"
  by (simp add: on_quotient_def py_div_def)

lemma evaluate_normal_no_error: "evaluate_normal config v \<noteq> Inl e"
proof -
  have fair: "min_good config * 0.5 \<noteq> 0" if "v \<ge> min_good config * 0.5" "v < min_good config"
    using that by auto
  show ?thesis
    unfolding evaluate_normal_def
    by (simp add: on_quotient_Inr fair)
qed

lemma evaluate_inverse_no_error:
  assumes "max_good config \<noteq> 0"
  shows "evaluate_inverse config v \<noteq> Inl e"
  unfolding evaluate_inverse_def using assms
  by (simp add: on_quotient_Inr)

lemma catalog_inverse_divisor_ok: "list_all inverse_divisor_ok all_threshold_entries"
  unfolding all_threshold_entries_def on_page_thresholds_def technical_thresholds_def
    core_web_vitals_thresholds_def authority_thresholds_def engagement_thresholds_def
    content_thresholds_def temporal_thresholds_def interaction_thresholds_def
    composite_thresholds_def
  by (simp add: inverse_divisor_ok_def)

text \<open>
  C10. For every entry of the shipped catalog and every real value, \<open>evaluate_feature\<close>
  returns a (tier, score) pair: no division raises \<open>ZeroDivisionError\<close>, because each
  divisor that can be zero sits behind a guard that excludes it.
\<close>

theorem evaluate_feature_catalog_no_zero_division:
  assumes "get_all_thresholds feature_name = Some config"
  shows "\<exists>q s. evaluate_feature feature_name v None = Inr (q, s)
          \<and> evaluate_feature feature_name v (Some get_all_thresholds) = Inr (q, s)"
proof -
  have "(feature_name, config) \<in> set all_threshold_entries"
    using assms unfolding get_all_thresholds_def by (rule map_of_SomeD)
  then have "inverse_divisor_ok (feature_name, config)"
    using catalog_inverse_divisor_ok by (simp add: list_all_iff)
  then have ok: "inverse config \<Longrightarrow> max_good config \<noteq> 0"
    by (simp add: inverse_divisor_ok_def)
  obtain r where r: "(if inverse config then evaluate_inverse config v
                      else evaluate_normal config v) = Inr r"
    using evaluate_inverse_no_error [where config = config and v = v]
      evaluate_normal_no_error [where config = config and v = v] ok
    by (cases "inverse config"; cases "evaluate_inverse config v"; cases "evaluate_normal config v")
       auto
  obtain q s where "r = (q, s)" by (cases r)
  with r assms show ?thesis
    by (simp add: evaluate_feature_def resolve_thresholds_def)
qed

theorem evaluate_feature_catalog_no_zero_division_witness:
  "get_all_thresholds ''title_keyword_position'' =
     Some \<lparr>category = ON_PAGE, min_good = 0, max_good = 40, min_excellent = 0,
           max_excellent = 10, weight = 1.3, inverse = True\<rparr>
   \<and> (\<exists>q s. evaluate_feature ''title_keyword_position'' 5 None = Inr (q, s)
          \<and> evaluate_feature ''title_keyword_position'' 5 (Some get_all_thresholds) = Inr (q, s))"
proof -
  have h: "get_all_thresholds ''title_keyword_position'' =
     Some \<lparr>category = ON_PAGE, min_good = 0, max_good = 40, min_excellent = 0,
           max_excellent = 10, weight = 1.3, inverse = True\<rparr>"
    by (simp add: get_all_thresholds_def all_threshold_entries_def on_page_thresholds_def)
  show ?thesis
    using h evaluate_feature_catalog_no_zero_division [OF h, of 5] by simp
qed

text \<open>
  C1. The score of \<open>evaluate_feature\<close> is meant to be normalised to \<open>[0, 1]\<close>. For a
  higher-is-better feature with \<open>min_good > 0\<close> a value above \<open>max_good\<close> falls through to
  the last branch, whose formula \<open>0.5 * (value / (min_good * 0.5))\<close> was written for values
  below the Fair band: for the shipped entry \<open>title_keyword_present\<close> (all four bounds 1)
  the value 2 is rated Poor with score 2.
\<close>

theorem evaluate_feature_score_exceeds_one:
  "evaluate_feature ''title_keyword_present'' 2 None = Inr (POOR, 2)"
  unfolding evaluate_feature_def resolve_thresholds_def get_all_thresholds_def
    all_threshold_entries_def on_page_thresholds_def
  by (simp add: evaluate_normal_def on_quotient_def py_div_def)

lemma overall_score_exceeds_hundred:
  \<comment> \<open>The same input takes the overall score, documented as \<open>float (0-100)\<close>, to 200.\<close>
  "\<exists>r. calculate_overall_quality [(''title_keyword_present'', 2)] None = Inr r
       \<and> overall_score r = 200 \<and> overall_quality r = EXCELLENT \<and> poor_features r = 1"
proof -
  have cfg: "get_all_thresholds ''title_keyword_present''
      = Some \<lparr>category = ON_PAGE, min_good = 1, max_good = 1, min_excellent = 1,
              max_excellent = 1, weight = 2, inverse = False\<rparr>"
    by (simp add: get_all_thresholds_def all_threshold_entries_def on_page_thresholds_def)
  have ev: "evaluate_feature ''title_keyword_present'' 2 (Some get_all_thresholds) = Inr (POOR, 2)"
    by (simp add: evaluate_feature_def resolve_thresholds_def cfg evaluate_normal_def
        on_quotient_def py_div_def)
  show ?thesis
    by (simp add: calculate_overall_quality_def resolve_thresholds_def quality_step_def cfg ev
        make_report_def overall_tier_def append_score_def)
qed

lemma evaluate_normal_below_fair_band:
  \<comment> \<open>The part of C1 that does hold: below the Fair band the tier is Poor, floored at 0.1.\<close>
  assumes "0 < min_good config" "min_good config \<le> min_excellent config"
    and "v < min_good config * 0.5"
  shows "\<exists>s. evaluate_normal config v = Inr (POOR, s) \<and> 0.1 \<le> s \<and> s < 0.5"
proof -
  define s where "s = max 0.1 (0.5 * (v / (min_good config * 0.5)))"
  have "evaluate_normal config v = Inr (POOR, s)"
    using assms by (simp add: evaluate_normal_def on_quotient_Inr s_def)
  moreover have "v / (min_good config * 0.5) < 1"
    using assms by (simp add: field_simps)
  then have "0.1 \<le> s \<and> s < 0.5"
    unfolding s_def by (auto simp: max_def)
  ultimately show ?thesis by blast
qed

lemma quality_step_unknown:
  "thresholds (fst item) = None \<Longrightarrow> quality_step thresholds item acc = Inr acc"
  by (simp add: quality_step_def)

lemma quality_loop_known_items:
  "quality_loop thresholds features acc
     = quality_loop thresholds (known_items thresholds features) acc"
proof (induction features arbitrary: acc)
  case Nil
  show ?case by (simp add: known_items_def)
next
  case (Cons item items)
  show ?case
  proof (cases "thresholds (fst item)")
    case None
    then show ?thesis
      using Cons.IH [of acc] by (simp add: known_items_def quality_step_unknown)
  next
    case (Some config)
    then have "known_items thresholds (item # items) = item # known_items thresholds items"
      by (simp add: known_items_def)
    then show ?thesis
      using Cons.IH by (simp split: sum.splits)
  qed
qed

text \<open>
  C9. \<open>calculate_overall_quality\<close> ignores every feature whose name has no entry in the
  threshold table: two records with the same known items give the same result (the same
  report, or the same exception), and a record with no known item gives overall score 0
  and overall quality Poor.
\<close>

theorem calculate_overall_quality_ignores_unknown:
  "(known_items (resolve_thresholds t) fs1 = known_items (resolve_thresholds t) fs2
      \<longrightarrow> calculate_overall_quality fs1 t = calculate_overall_quality fs2 t)
   \<and> (known_items (resolve_thresholds t) fs = []
      \<longrightarrow> (\<exists>r. calculate_overall_quality fs t = Inr r
            \<and> overall_score r = 0 \<and> overall_quality r = POOR
            \<and> feature_scores r = [] \<and> category_scores r = []
            \<and> good_features r = 0 \<and> poor_features r = 0 \<and> total_features r = 0))"
proof (intro conjI impI)
  assume "known_items (resolve_thresholds t) fs1 = known_items (resolve_thresholds t) fs2"
  then show "calculate_overall_quality fs1 t = calculate_overall_quality fs2 t"
    unfolding calculate_overall_quality_def
    using quality_loop_known_items [of "resolve_thresholds t" fs1]
      quality_loop_known_items [of "resolve_thresholds t" fs2]
    by simp
next
  assume "known_items (resolve_thresholds t) fs = []"
  then show "\<exists>r. calculate_overall_quality fs t = Inr r
            \<and> overall_score r = 0 \<and> overall_quality r = POOR
            \<and> feature_scores r = [] \<and> category_scores r = []
            \<and> good_features r = 0 \<and> poor_features r = 0 \<and> total_features r = 0"
    unfolding calculate_overall_quality_def
    using quality_loop_known_items [of "resolve_thresholds t" fs]
    by (simp add: make_report_def overall_tier_def)
qed

theorem calculate_overall_quality_ignores_unknown_witness:
  "known_items (resolve_thresholds None) [(''h1_count'', 1), (''not_a_feature'', 7)]
     = known_items (resolve_thresholds None) [(''h1_count'', 1)]
   \<and> calculate_overall_quality [(''h1_count'', 1), (''not_a_feature'', 7)] None
     = calculate_overall_quality [(''h1_count'', 1)] None
   \<and> known_items (resolve_thresholds None) [(''not_a_feature'', 7)] = []
   \<and> (\<exists>r. calculate_overall_quality [(''not_a_feature'', 7)] None = Inr r
         \<and> overall_score r = 0 \<and> overall_quality r = POOR)"
proof -
  have unknown: "get_all_thresholds ''not_a_feature'' = None"
    unfolding get_all_thresholds_def all_threshold_entries_def on_page_thresholds_def
      technical_thresholds_def core_web_vitals_thresholds_def authority_thresholds_def
      engagement_thresholds_def content_thresholds_def temporal_thresholds_def
      interaction_thresholds_def composite_thresholds_def
    by simp
  have h1: "known_items (resolve_thresholds None) [(''h1_count'', 1), (''not_a_feature'', 7)]
     = known_items (resolve_thresholds None) [(''h1_count'', 1)]"
    by (simp add: known_items_def resolve_thresholds_def unknown)
  have h2: "known_items (resolve_thresholds None) [(''not_a_feature'', 7)] = []"
    by (simp add: known_items_def resolve_thresholds_def unknown)
  show ?thesis
    using h1 h2
      calculate_overall_quality_ignores_unknown
        [where t = None and ?fs1.0 = "[(''h1_count'', 1), (''not_a_feature'', 7)]"
           and ?fs2.0 = "[(''h1_count'', 1)]" and fs = "[(''not_a_feature'', 7)]"]
    by blast
qed

section \<open>Properties of the ranking metrics\<close>

subsection \<open>Index arrays\<close>

lemma set_argsort: "set (argsort xs) = {..<length xs}"
  by (auto simp: argsort_def)



lemma fancy_index_Inr:
  "set idxs \<subseteq> {..<length xs} \<Longrightarrow> fancy_index xs idxs = Inr (map (\<lambda>i. xs ! i) idxs)"
  by (auto simp: fancy_index_def list_all_iff)


subsection \<open>The best prefix of a descending list\<close>



subsection \<open>Weighted sums with non-increasing weights\<close>



subsection \<open>Discount and gain\<close>









subsection \<open>The code computes the exact quantities on graded labels\<close>









subsection \<open>NDCG at k\<close>



lemma calculate_ndcg_at_k_float64_overflow:
  \<comment> \<open>In a float64 label array the grade 1024 has the gain \<open>inf\<close>, and the NDCG is NaN.\<close>
  "calculate_ndcg_at_k [F64 1024] [0.5] 3 = Inr NaN"
proof -
  have top: "take (min 3 (length (rev (argsort [0.5 :: real])))) (rev (argsort [0.5 :: real])) = [0]"
    by (simp add: argsort_def)
  have g: "discounted_gain 0 (F64 1024) = Inr PInf"
    by (simp add: discounted_gain_def signed_inf_def)
  have dcg: "dcg_loop [F64 1024] (enumerate 0 [0]) (Fin 0) = Inr PInf"
    by (simp add: g)
  have idcg: "ideal_dcg [F64 1024] 3 = Inr PInf"
    by (simp add: ideal_dcg_def g)
  show ?thesis
    unfolding calculate_ndcg_at_k_def Let_def top dcg idcg by simp
qed



subsection \<open>Mean average precision\<close>

lemma group_average_precision_no_relevant:
  assumes "\<forall>l\<in>set group_true. l < 2"
  shows "group_average_precision group_true group_pred = Inr None"
proof -
  have "map (\<lambda>l. if l \<ge> 2 then 1 else (0::nat)) group_true = map (\<lambda>l. 0) group_true"
    using assms by (intro map_cong) auto
  then show ?thesis
    by (simp add: group_average_precision_def)
qed

lemma slice_in_prefix:
  "e \<le> length xs \<Longrightarrow> slice (xs @ ys) s e = slice xs s e"
  by (simp add: slice_def)

lemma slice_after_removed:
  assumes "length xs \<le> s"
  shows "slice (xs @ mid @ ys) (s + length mid) (e + length mid) = slice (xs @ ys) s e"
  using assms by (simp add: slice_def)

lemma slice_of_middle:
  "slice (xs @ mid @ ys) (length xs) (length xs + length mid) = mid"
  by (simp add: slice_def)

lemma map_loop_append:
  "map_loop y_true y_pred (gs1 @ gs2) s acc =
     (case map_loop y_true y_pred gs1 s acc of
        Inl e \<Rightarrow> Inl e
      | Inr acc' \<Rightarrow> map_loop y_true y_pred gs2 (s + sum_list gs1) acc')"
proof (induction gs1 arbitrary: s acc)
  case Nil
  show ?case by simp
next
  case (Cons g gs1)
  show ?case
    by (simp add: Let_def Cons.IH add.assoc split: sum.splits option.splits)
qed

lemma map_loop_in_prefix:
  assumes "s + sum_list gs \<le> length t1" and "s + sum_list gs \<le> length p1"
  shows "map_loop (t1 @ ta) (p1 @ pa) gs s acc = map_loop (t1 @ tb) (p1 @ pb) gs s acc"
  using assms
proof (induction gs arbitrary: s acc)
  case Nil
  show ?case by simp
next
  case (Cons g gs)
  have "slice (t1 @ ta) s (s + g) = slice (t1 @ tb) s (s + g)"
    and "slice (p1 @ pa) s (s + g) = slice (p1 @ pb) s (s + g)"
    using Cons.prems by (simp_all add: slice_in_prefix)
  moreover have "map_loop (t1 @ ta) (p1 @ pa) gs (s + g) acc'
      = map_loop (t1 @ tb) (p1 @ pb) gs (s + g) acc'" for acc'
    using Cons.prems by (intro Cons.IH) simp_all
  ultimately show ?case
    by (simp add: Let_def split: sum.splits option.splits)
qed

lemma map_loop_after_removed:
  assumes "length t1 \<le> s" and "length p1 \<le> s" and "length pg = length tg"
  shows "map_loop (t1 @ tg @ t2) (p1 @ pg @ p2) gs (s + length tg) acc
           = map_loop (t1 @ t2) (p1 @ p2) gs s acc"
  using assms(1,2)
proof (induction gs arbitrary: s acc)
  case Nil
  show ?case by simp
next
  case (Cons g gs)
  have "slice (t1 @ tg @ t2) (s + length tg) (s + length tg + g) = slice (t1 @ t2) s (s + g)"
    using slice_after_removed [of t1 s tg t2 "s + g"] Cons.prems by (simp add: add.commute add.left_commute)
  moreover have "slice (p1 @ pg @ p2) (s + length tg) (s + length tg + g) = slice (p1 @ p2) s (s + g)"
    using slice_after_removed [of p1 s pg p2 "s + g"] Cons.prems assms(3)
    by (simp add: add.commute add.left_commute)
  moreover have "map_loop (t1 @ tg @ t2) (p1 @ pg @ p2) gs (s + g + length tg) acc'
      = map_loop (t1 @ t2) (p1 @ p2) gs (s + g) acc'" for acc'
    using Cons.prems by (intro Cons.IH) simp_all
  ultimately show ?case
    by (simp add: Let_def add.commute add.left_commute split: sum.splits option.splits)
qed

lemma set_slice_first: "set (slice xs s (s + g)) \<subseteq> set (slice xs s (s + (g + r)))"
  by (simp add: slice_def set_take_subset_set_take)

lemma set_slice_rest: "set (slice xs (s + g) (s + g + r)) \<subseteq> set (slice xs s (s + (g + r)))"
proof -
  have "slice xs (s + g) (s + g + r) = drop g (take (g + r) (drop s xs))"
    by (simp add: slice_def drop_take add.commute)
  then show ?thesis
    by (simp add: slice_def set_drop_subset)
qed

lemma map_loop_no_relevant:
  assumes "\<forall>l\<in>set (slice y_true s (s + sum_list gs)). l < 2"
  shows "map_loop y_true y_pred gs s acc = Inr acc"
  using assms
proof (induction gs arbitrary: s)
  case Nil
  show ?case by simp
next
  case (Cons g gs)
  have "\<forall>l\<in>set (slice y_true s (s + g)). l < 2"
    using Cons.prems set_slice_first [of y_true s g "sum_list gs"] by auto
  then have skip: "group_average_precision (slice y_true s (s + g)) (slice y_pred s (s + g)) = Inr None"
    by (rule group_average_precision_no_relevant)
  have "\<forall>l\<in>set (slice y_true (s + g) (s + g + sum_list gs)). l < 2"
    using Cons.prems set_slice_rest [of y_true s g "sum_list gs"] by auto
  then have "map_loop y_true y_pred gs (s + g) acc = Inr acc"
    by (rule Cons.IH)
  with skip show ?case
    by (simp add: Let_def)
qed

text \<open>
  C5. A query group without a relevant document (no label \<open>\<ge> 2\<close>) contributes nothing to
  the MAP: the result is the one computed with the group (its labels, its predictions and
  its size) removed. When no group has a relevant document, the MAP is 0.
\<close>

theorem calculate_map_skips_groups_without_relevant:
  "(length t1 = sum_list gs1 \<and> length p1 = sum_list gs1
      \<and> length tg = n \<and> length pg = n \<and> (\<forall>l\<in>set tg. l < 2)
     \<longrightarrow> calculate_map (t1 @ tg @ t2) (p1 @ pg @ p2) (gs1 @ n # gs2)
          = calculate_map (t1 @ t2) (p1 @ p2) (gs1 @ gs2))
   \<and> ((\<forall>l\<in>set (slice y_true 0 (sum_list groups)). l < 2)
     \<longrightarrow> calculate_map y_true y_pred groups = Inr 0)"
proof (intro conjI impI)
  assume h: "length t1 = sum_list gs1 \<and> length p1 = sum_list gs1
      \<and> length tg = n \<and> length pg = n \<and> (\<forall>l\<in>set tg. l < 2)"
  have before: "map_loop (t1 @ tg @ t2) (p1 @ pg @ p2) gs1 0 []
      = map_loop (t1 @ t2) (p1 @ p2) gs1 0 []"
    using h by (intro map_loop_in_prefix) simp_all
  have "slice (t1 @ tg @ t2) (sum_list gs1) (sum_list gs1 + n) = tg"
    using slice_of_middle [of t1 tg t2] h by simp
  then have skip: "group_average_precision (slice (t1 @ tg @ t2) (sum_list gs1) (sum_list gs1 + n))
         (slice (p1 @ pg @ p2) (sum_list gs1) (sum_list gs1 + n)) = Inr None"
    using h by (simp add: group_average_precision_no_relevant)
  have after: "map_loop (t1 @ tg @ t2) (p1 @ pg @ p2) gs2 (sum_list gs1 + n) acc
      = map_loop (t1 @ t2) (p1 @ p2) gs2 (sum_list gs1) acc" for acc
    using map_loop_after_removed [of t1 "sum_list gs1" p1 pg tg t2 p2 gs2 acc] h by simp
  have "map_loop (t1 @ tg @ t2) (p1 @ pg @ p2) (gs1 @ n # gs2) 0 []
      = map_loop (t1 @ t2) (p1 @ p2) (gs1 @ gs2) 0 []"
    unfolding map_loop_append before
    by (simp add: Let_def skip after split: sum.splits)
  then show "calculate_map (t1 @ tg @ t2) (p1 @ pg @ p2) (gs1 @ n # gs2)
          = calculate_map (t1 @ t2) (p1 @ p2) (gs1 @ gs2)"
    by (simp add: calculate_map_def)
next
  assume "\<forall>l\<in>set (slice y_true 0 (sum_list groups)). l < 2"
  then have "map_loop y_true y_pred groups 0 [] = Inr []"
    using map_loop_no_relevant [of y_true 0 groups y_pred "[]"] by simp
  then show "calculate_map y_true y_pred groups = Inr 0"
    by (simp add: calculate_map_def)
qed

theorem calculate_map_skips_groups_without_relevant_witness:
  "calculate_map ([3, 0] @ [1, 0] @ [2]) ([0.5, 0.4] @ [0.3, 0.2] @ [0.1]) ([2] @ 2 # [1])
     = calculate_map ([3, 0] @ [2]) ([0.5, 0.4] @ [0.1]) ([2] @ [1])
   \<and> calculate_map [1, 0] [0.3, 0.2] [2] = Inr 0"
proof -
  have h1: "length [3, 0 :: real] = sum_list [2] \<and> length [0.5, 0.4 :: real] = sum_list [2]
      \<and> length [1, 0 :: real] = 2 \<and> length [0.3, 0.2 :: real] = 2
      \<and> (\<forall>l\<in>set [1, 0 :: real]. l < 2)"
    by simp
  have h2: "\<forall>l\<in>set (slice [1, 0 :: real] 0 (sum_list [2])). l < 2"
    by (simp add: slice_def)
  show ?thesis
    using h1 h2
      calculate_map_skips_groups_without_relevant
        [where ?t1.0 = "[3, 0]" and ?gs1.0 = "[2]" and ?p1.0 = "[0.5, 0.4]"
           and tg = "[1, 0]" and n = 2 and pg = "[0.3, 0.2]" and ?t2.0 = "[2]"
           and ?p2.0 = "[0.1]" and ?gs2.0 = "[1]"
           and y_true = "[1, 0]" and groups = "[2]" and y_pred = "[0.3, 0.2]"]
    by blast
qed

subsection \<open>The train/test split\<close>

lemma length_mask_select:
  "length msk = length xs \<Longrightarrow> length (mask_select msk xs) = length (filter id msk)"
proof (induction msk xs rule: list_induct2)
  case Nil
  show ?case by (simp add: mask_select_def)
next
  case (Cons m msk x xs)
  then show ?case by (simp add: mask_select_def)
qed






text \<open>
  The function does return on well-formed input: as many feature rows and labels as
  query ids, a test fraction in \<open>[0, 1]\<close> and a sampler that draws positions below the
  population size.
\<close>

lemma prepare_ranking_split_returns:
  assumes "length features = length query_ids" and "length labels = length query_ids"
    and "0 \<le> test_size" and "test_size \<le> 1"
    and "\<And>n m. m \<le> n \<Longrightarrow> set (sampler n m) \<subseteq> {..<n}"
  shows "\<exists>s. prepare_ranking_split sampler features labels query_ids test_size = Inr s"
proof -
  define qs where "qs = map (\<lambda>i. query_ids ! i) (argsort query_ids)"
  define n where "n = length (unique qs)"
  define m where "m = py_int (real n * test_size)"
  have f: "fancy_index features (argsort query_ids)
      = Inr (map (\<lambda>i. features ! i) (argsort query_ids))"
    using assms(1) by (intro fancy_index_Inr) (simp add: set_argsort)
  have l: "fancy_index labels (argsort query_ids)
      = Inr (map (\<lambda>i. labels ! i) (argsort query_ids))"
    using assms(2) by (intro fancy_index_Inr) (simp add: set_argsort)
  have "0 \<le> real n * test_size" and "real n * test_size \<le> real n"
    using assms(3,4) by (simp_all add: mult_left_le)
  then have m0: "0 \<le> m" and mn: "m \<le> int n"
    by (simp_all add: m_def py_int_def floor_le_iff)
  then have c: "random_choice sampler n m = Inr (sampler n (nat m))"
    by (simp add: random_choice_def)
  have "set (sampler n (nat m)) \<subseteq> {..<length (unique qs)}"
    using assms(5) [of "nat m" n] m0 mn by (simp add: n_def)
  then have u: "fancy_index (unique qs) (sampler n (nat m))
      = Inr (map (\<lambda>i. unique qs ! i) (sampler n (nat m)))"
    by (rule fancy_index_Inr)
  show ?thesis
    unfolding prepare_ranking_split_def Let_def
    using f l c u by (simp add: qs_def n_def m_def)
qed



section \<open>Properties of the pairwise loss\<close>

lemma fold_unchanged:
  "(\<And>x. x \<in> set xs \<Longrightarrow> f x st = st) \<Longrightarrow> fold f xs st = st"
  by (induction xs) simp_all

lemma set_mask_select:
  assumes "length msk = length xs"
  shows "set (mask_select msk xs) = {xs ! i | i. i < length xs \<and> msk ! i}"
proof -
  have "set (mask_select msk xs) = snd ` {p \<in> set (zip msk xs). fst p}"
    by (simp add: mask_select_def)
  also have "\<dots> = {xs ! i | i. i < length xs \<and> msk ! i}"
    using assms by (auto simp: set_zip image_iff) force
  finally show ?thesis .
qed

lemma index_pairs_in_range:
  "(i, j) \<in> set (index_pairs n) \<Longrightarrow> i < n \<and> j < n"
  by (auto simp: index_pairs_def)

lemma pair_step_equal_labels:
  "q_labels ! i = q_labels ! j \<Longrightarrow> pair_step sigma q_scores q_labels (i, j) st = st"
  by (simp add: pair_step_def)

lemma query_step_equal_labels:
  assumes len: "length labels = length query_ids" and len_s: "length scores = length query_ids"
    and eq: "\<And>i j. i < length query_ids \<Longrightarrow> j < length query_ids
              \<Longrightarrow> query_ids ! i = query_ids ! j \<Longrightarrow> labels ! i = labels ! j"
  shows "query_step sigma scores labels query_ids qid st = st"
proof -
  define msk where "msk = map (\<lambda>q. q = qid) query_ids"
  define q_scores where "q_scores = mask_select msk scores"
  define q_labels where "q_labels = mask_select msk labels"
  have set_labels: "set q_labels = {labels ! i | i. i < length labels \<and> msk ! i}"
    unfolding q_labels_def using len by (intro set_mask_select) (simp add: msk_def)
  have same: "a = b" if "a \<in> set q_labels" "b \<in> set q_labels" for a b
  proof -
    from that obtain i j where i: "i < length labels" "msk ! i" "a = labels ! i"
      and j: "j < length labels" "msk ! j" "b = labels ! j"
      unfolding set_labels by blast
    have "query_ids ! i = qid" "query_ids ! j = qid"
      using i j len by (simp_all add: msk_def)
    then show ?thesis
      using eq [of i j] i j len by simp
  qed
  have len_q: "length q_scores = length q_labels"
    using len len_s by (simp add: q_scores_def q_labels_def length_mask_select msk_def)
  have step: "pair_step sigma q_scores q_labels p st = st"
    if "p \<in> set (index_pairs (length q_scores))" for p
  proof -
    obtain i j where p: "p = (i, j)" by (cases p)
    then have "i < length q_labels" "j < length q_labels"
      using that index_pairs_in_range len_q by auto
    then have "q_labels ! i = q_labels ! j"
      by (intro same) simp_all
    then show ?thesis
      unfolding p by (rule pair_step_equal_labels)
  qed
  have "fold (pair_step sigma q_scores q_labels) (index_pairs (length q_scores)) st = st"
    using step by (rule fold_unchanged)
  then show ?thesis
    by (simp add: query_step_def Let_def flip: msk_def q_scores_def q_labels_def)
qed

text \<open>
  C6. When all relevance labels within each query group of a batch are equal, no pair is
  informative and \<open>LambdaRankLoss.forward\<close> returns the loss 0, whatever the scores
  and \<open>sigma\<close> are.
\<close>

theorem lambda_rank_forward_equal_labels:
  assumes "length scores = length query_ids" and "length labels = length query_ids"
    and "\<forall>i<length query_ids. \<forall>j<length query_ids.
           query_ids ! i = query_ids ! j \<longrightarrow> labels ! i = labels ! j"
  shows "lambda_rank_forward sigma scores labels query_ids = Inr 0"
proof -
  have eq: "labels ! i = labels ! j"
    if "i < length query_ids" "j < length query_ids" "query_ids ! i = query_ids ! j" for i j
    using assms(3) that by blast
  have step: "query_step sigma scores labels query_ids qid st = st" for qid st
    using assms(2,1) eq by (rule query_step_equal_labels)
  have "fold (query_step sigma scores labels query_ids) (unique query_ids) (0, 0) = (0, 0)"
    by (rule fold_unchanged) (rule step)
  then show ?thesis
    using assms(1,2) by (simp add: lambda_rank_forward_def)
qed

theorem lambda_rank_forward_equal_labels_witness:
  "length [0.3, 0.9, 0.1 :: real] = length [1, 1, 2 :: int]
   \<and> length [2, 2, 0 :: real] = length [1, 1, 2 :: int]
   \<and> lambda_rank_forward 1 [0.3, 0.9, 0.1] [2, 2, 0] [1, 1, 2] = Inr 0"
proof -
  have h1: "length [0.3, 0.9, 0.1 :: real] = length [1, 1, 2 :: int]" by simp
  have h2: "length [2, 2, 0 :: real] = length [1, 1, 2 :: int]" by simp
  have h3: "\<forall>i<length [1, 1, 2 :: int]. \<forall>j<length [1, 1, 2 :: int].
      [1, 1, 2 :: int] ! i = [1, 1, 2] ! j \<longrightarrow> [2, 2, 0 :: real] ! i = [2, 2, 0] ! j"
    by (simp add: less_Suc_eq numeral_3_eq_3 all_conj_distrib)
  show ?thesis
    using h1 h2 lambda_rank_forward_equal_labels [OF h1 h2 h3, of 1] by simp
qed

section \<open>Properties of the ratio features\<close>

lemma length_rows_assign: "length (rows (assign c f df)) = length (rows df)"
  by (simp add: assign_def)

lemma cell_assign_other:
  "c' \<noteq> c \<Longrightarrow> i < length (rows df) \<Longrightarrow> (rows (assign c f df) ! i) c' = (rows df ! i) c'"
  by (simp add: assign_def)

lemma cell_assign_same:
  "i < length (rows df) \<Longrightarrow> (rows (assign c f df) ! i) c = f (rows df ! i)"
  by (simp add: assign_def)

lemma columns_assign_keeps: "x \<in> set (columns df) \<Longrightarrow> x \<in> set (columns (assign c f df))"
  by (simp add: assign_def)

lemma columns_assign_new: "c \<in> set (columns (assign c f df))"
  by (simp add: assign_def)

lemma image_alt_step_keeps:
  "length (rows (image_alt_step df)) = length (rows df)"
  "x \<in> set (columns df) \<Longrightarrow> x \<in> set (columns (image_alt_step df))"
  "i < length (rows df) \<Longrightarrow>
     (rows (image_alt_step df) ! i) ''total_backlinks'' = (rows df ! i) ''total_backlinks''"
  by (simp_all add: image_alt_step_def length_rows_assign columns_assign_keeps cell_assign_other)

lemma authority_step_keeps:
  "length (rows (authority_step df)) = length (rows df)"
  "x \<in> set (columns df) \<Longrightarrow> x \<in> set (columns (authority_step df))"
  "i < length (rows df) \<Longrightarrow>
     (rows (authority_step df) ! i) ''dofollow_ratio'' = (rows df ! i) ''dofollow_ratio''"
  by (simp_all add: authority_step_def length_rows_assign columns_assign_keeps cell_assign_other)

lemma anchor_step_keeps:
  "length (rows (anchor_step df)) = length (rows df)"
  "x \<in> set (columns df) \<Longrightarrow> x \<in> set (columns (anchor_step df))"
  "i < length (rows df) \<Longrightarrow>
     (rows (anchor_step df) ! i) ''dofollow_ratio'' = (rows df ! i) ''dofollow_ratio''"
  by (simp_all add: anchor_step_def anchor_ratio_cols_def length_rows_assign
      columns_assign_keeps cell_assign_other)

lemma content_to_code_step_keeps:
  "length (rows (content_to_code_step df)) = length (rows df)"
  "x \<in> set (columns df) \<Longrightarrow> x \<in> set (columns (content_to_code_step df))"
  "i < length (rows df) \<Longrightarrow>
     (rows (content_to_code_step df) ! i) ''dofollow_ratio'' = (rows df ! i) ''dofollow_ratio''"
  by (simp_all add: content_to_code_step_def length_rows_assign columns_assign_keeps
      cell_assign_other)

lemma engagement_step_keeps:
  "length (rows (engagement_step df)) = length (rows df)"
  "x \<in> set (columns df) \<Longrightarrow> x \<in> set (columns (engagement_step df))"
  "i < length (rows df) \<Longrightarrow>
     (rows (engagement_step df) ! i) ''dofollow_ratio'' = (rows df ! i) ''dofollow_ratio''"
  by (simp_all add: engagement_step_def length_rows_assign columns_assign_keeps
      cell_assign_other)

lemma dofollow_step_zero_backlinks:
  assumes "has_columns df [''dofollow_links'', ''total_backlinks'']"
    and "i < length (rows df)" and "(rows df ! i) ''total_backlinks'' = Fin 0"
  shows "''dofollow_ratio'' \<in> set (columns (dofollow_step df))"
    and "length (rows (dofollow_step df)) = length (rows df)"
    and "(rows (dofollow_step df) ! i) ''dofollow_ratio'' = Fin 0"
  using assms
  by (simp_all add: dofollow_step_def columns_assign_new length_rows_assign cell_assign_same
      np_where_def)

text \<open>
  C7. When the columns \<open>dofollow_links\<close> and \<open>total_backlinks\<close> are present, the ratio
  step writes the column \<open>dofollow_ratio\<close>, and in every row whose \<open>total_backlinks\<close> is 0
  its cell is the number 0: not NaN, not an infinity; the model of the step has no error
  result because the element-wise division of numpy does not raise.
\<close>

theorem create_ratio_features_dofollow_ratio_zero:
  assumes "has_columns df [''dofollow_links'', ''total_backlinks'']"
    and "i < length (rows df)" and "(rows df ! i) ''total_backlinks'' = Fin 0"
  shows "''dofollow_ratio'' \<in> set (columns (create_ratio_features df))
         \<and> length (rows (create_ratio_features df)) = length (rows df)
         \<and> (rows (create_ratio_features df) ! i) ''dofollow_ratio'' = Fin 0"
proof -
  define d1 where "d1 = image_alt_step df"
  define d2 where "d2 = dofollow_step d1"
  define d3 where "d3 = authority_step d2"
  define d4 where "d4 = anchor_step d3"
  define d5 where "d5 = content_to_code_step d4"
  have res: "create_ratio_features df = engagement_step d5"
    by (simp add: create_ratio_features_def d1_def d2_def d3_def d4_def d5_def)
  have l1: "length (rows d1) = length (rows df)"
    unfolding d1_def by (rule image_alt_step_keeps)
  have h1: "has_columns d1 [''dofollow_links'', ''total_backlinks'']"
    using assms(1) by (simp add: has_columns_def d1_def image_alt_step_keeps)
  have z1: "(rows d1 ! i) ''total_backlinks'' = Fin 0"
    using assms(2,3) by (simp add: d1_def image_alt_step_keeps)
  have i1: "i < length (rows d1)"
    using assms(2) l1 by simp
  have c2: "''dofollow_ratio'' \<in> set (columns d2)" and l2: "length (rows d2) = length (rows d1)"
    and z2: "(rows d2 ! i) ''dofollow_ratio'' = Fin 0"
    unfolding d2_def using h1 i1 z1 by (rule dofollow_step_zero_backlinks)+
  have c3: "''dofollow_ratio'' \<in> set (columns d3)" and l3: "length (rows d3) = length (rows d2)"
    and z3: "(rows d3 ! i) ''dofollow_ratio'' = Fin 0"
    using c2 z2 i1 l2 by (simp_all add: d3_def authority_step_keeps)
  have c4: "''dofollow_ratio'' \<in> set (columns d4)" and l4: "length (rows d4) = length (rows d3)"
    and z4: "(rows d4 ! i) ''dofollow_ratio'' = Fin 0"
    using c3 z3 i1 l2 l3 by (simp_all add: d4_def anchor_step_keeps)
  have c5: "''dofollow_ratio'' \<in> set (columns d5)" and l5: "length (rows d5) = length (rows d4)"
    and z5: "(rows d5 ! i) ''dofollow_ratio'' = Fin 0"
    using c4 z4 i1 l2 l3 l4 by (simp_all add: d5_def content_to_code_step_keeps)
  show ?thesis
    unfolding res
    using c5 z5 i1 l1 l2 l3 l4 l5 by (simp add: engagement_step_keeps)
qed

theorem create_ratio_features_dofollow_ratio_zero_witness:
  "has_columns \<lparr>columns = [''dofollow_links'', ''total_backlinks''],
                 rows = [(\<lambda>c. Fin 0)(''dofollow_links'' := Fin 3)]\<rparr>
     [''dofollow_links'', ''total_backlinks'']
   \<and> fdiv (Fin 3) (Fin 0) = PInf
   \<and> (rows (create_ratio_features
          \<lparr>columns = [''dofollow_links'', ''total_backlinks''],
           rows = [(\<lambda>c. Fin 0)(''dofollow_links'' := Fin 3)]\<rparr>) ! 0) ''dofollow_ratio'' = Fin 0"
proof -
  define df where "df = \<lparr>columns = [''dofollow_links'', ''total_backlinks''],
                 rows = [(\<lambda>c. Fin 0)(''dofollow_links'' := Fin 3)]\<rparr>"
  have h1: "has_columns df [''dofollow_links'', ''total_backlinks'']"
    by (simp add: df_def has_columns_def)
  have h2: "0 < length (rows df)"
    by (simp add: df_def)
  have h3: "(rows df ! 0) ''total_backlinks'' = Fin 0"
    by (simp add: df_def)
  have "fdiv (Fin 3) (Fin 0) = PInf"
    by (simp add: signed_inf_def)
  then show ?thesis
    using h1 create_ratio_features_dofollow_ratio_zero [OF h1 h2 h3]
    unfolding df_def by simp
qed

end
